theory Spec2Isabelle
  imports Complex_Main "HOL-Library.Sublist" "HOL-Library.Multiset" "HOL-Library.Log_Nat"
begin

section \<open>ValidatorPool pallet integration (src/shared/lib/validator-pool.ts)\<close>

text \<open>
  The module is a set of helpers over a remote chain API. The chain is modelled as a
  snapshot record (\<open>api\<close>) holding what each storage query answers. The integers the
  chain stores (scores, counters, era indices, block heights) are \<open>int\<close>; where the
  code only copies or compares them, they stay \<open>int\<close>. Where the code computes with
  them (\<open>getPoolStats\<close>, \<open>estimateEraRewards\<close>, \<open>blocksToTime\<close>) the values are
  JavaScript numbers, and every operation rounds as the language does.
\<close>

subsection \<open>JavaScript numbers\<close>

text \<open>
  A \<open>number\<close> is an IEEE 754 double: a finite value, an infinity or \<open>NaN\<close>. The sign
  of zero is not modelled: \<open>Fin 0\<close> stands for both zeros, and a zero divisor counts as
  \<open>+0\<close>. A finite value \<open>Fin v\<close> is meant with \<open>v\<close> a double.
\<close>

datatype number = Fin real | PosInf | NegInf | NaN

text \<open>
  An operation on finite values gives the exact result rounded to the nearest double,
  ties to even: 53 significant bits, so a value in the binade \<open>[2^e, 2^(e+1))\<close> is rounded
  to a multiple of \<open>2^(e-52)\<close>; the least quantum is \<open>2^-1074\<close>; a result that reaches
  \<open>2^1024\<close> is infinite.
\<close>

definition binade :: "real \<Rightarrow> int" where
  "binade x =
     (if 1 \<le> \<bar>x\<bar> then bitlen \<lfloor>\<bar>x\<bar>\<rfloor> - 1 else - bitlen (\<lceil>1 / \<bar>x\<bar>\<rceil> - 1))"

definition round_half_even :: "real \<Rightarrow> int" where
  "round_half_even y =
     (let f = \<lfloor>y\<rfloor>; d = y - of_int f
      in if d < 1 / 2 then f else if 1 / 2 < d then f + 1 else if even f then f else f + 1)"

definition round_double :: "real \<Rightarrow> number" where
  "round_double x =
     (if x = 0 then Fin 0
      else
        let q = max (binade x - 52) (- 1074);
            v = of_int (round_half_even (x / 2 powi q)) * 2 powi q
        in if 2 powi 1024 \<le> v then PosInf
           else if v \<le> - (2 powi 1024) then NegInf
           else Fin v)"

text \<open>
  The number that holds an integer of the chain: the code reads the chain's values as
  numbers (\<open>toJSON() as number\<close>, \<open>toNumber()\<close>). Every integer of magnitude up
  to \<open>2^53\<close> is a double.
\<close>

definition num :: "int \<Rightarrow> number" where
  "num n = Fin (of_int n)"




fun js_mul :: "number \<Rightarrow> number \<Rightarrow> number" where
  "js_mul (Fin a) (Fin b) = round_double (a * b)"
| "js_mul NaN y = NaN"
| "js_mul x NaN = NaN"
| "js_mul (Fin a) PosInf = (if a = 0 then NaN else if 0 < a then PosInf else NegInf)"
| "js_mul (Fin a) NegInf = (if a = 0 then NaN else if 0 < a then NegInf else PosInf)"
| "js_mul PosInf (Fin b) = (if b = 0 then NaN else if 0 < b then PosInf else NegInf)"
| "js_mul NegInf (Fin b) = (if b = 0 then NaN else if 0 < b then NegInf else PosInf)"
| "js_mul PosInf PosInf = PosInf"
| "js_mul PosInf NegInf = NegInf"
| "js_mul NegInf PosInf = NegInf"
| "js_mul NegInf NegInf = PosInf"

fun js_div :: "number \<Rightarrow> number \<Rightarrow> number" where
  "js_div (Fin a) (Fin b) =
     (if b = 0 then (if a = 0 then NaN else if 0 < a then PosInf else NegInf)
      else round_double (a / b))"
| "js_div NaN y = NaN"
| "js_div x NaN = NaN"
| "js_div (Fin a) PosInf = Fin 0"
| "js_div (Fin a) NegInf = Fin 0"
| "js_div PosInf (Fin b) = (if 0 \<le> b then PosInf else NegInf)"
| "js_div NegInf (Fin b) = (if 0 \<le> b then NegInf else PosInf)"
| "js_div PosInf y = NaN"
| "js_div NegInf y = NaN"

text \<open>
  The remainder takes the sign of the dividend: the quotient is truncated towards
  zero. It is exact, so nothing is rounded.
\<close>

definition trunc_zero :: "real \<Rightarrow> int" where
  "trunc_zero z = (if 0 \<le> z then \<lfloor>z\<rfloor> else \<lceil>z\<rceil>)"

fun js_rem :: "number \<Rightarrow> number \<Rightarrow> number" where
  "js_rem (Fin a) (Fin b) = (if b = 0 then NaN else Fin (a - b * of_int (trunc_zero (a / b))))"
| "js_rem NaN y = NaN"
| "js_rem x NaN = NaN"
| "js_rem PosInf y = NaN"
| "js_rem NegInf y = NaN"
| "js_rem (Fin a) PosInf = Fin a"
| "js_rem (Fin a) NegInf = Fin a"

text \<open>\<open>Math.floor\<close>, \<open>Math.max\<close> of two numbers, and the comparisons \<open><=\<close> and \<open>===\<close>.\<close>

fun Math_floor :: "number \<Rightarrow> number" where
  "Math_floor (Fin a) = Fin (of_int \<lfloor>a\<rfloor>)"
| "Math_floor x = x"



fun js_eq :: "number \<Rightarrow> number \<Rightarrow> bool" where
  "js_eq (Fin a) (Fin b) = (a = b)"
| "js_eq PosInf PosInf = True"
| "js_eq NegInf NegInf = True"
| "js_eq x y = False"

subsection \<open>Type definitions\<close>

datatype ValidatorPoolCategory = StakeValidator | ParliamentaryValidator | MeritValidator

record ValidatorPerformance =
  blocksProduced :: int
  blocksMissed :: int
  eraPoints :: int
  lastActiveEra :: int
  reputationScore :: int

record ValidatorSet =
  eraIndex :: int
  stakeValidators :: "string list"
  parliamentaryValidators :: "string list"
  meritValidators :: "string list"

record PoolMember =
  account :: string
  category :: ValidatorPoolCategory
  performance :: ValidatorPerformance
  isActive :: bool


subsection \<open>The chain API as a snapshot\<close>

text \<open>
  What \<open>toJSON()\<close> hands back: a field or a value may be missing (\<open>null\<close> or
  \<open>undefined\<close>), which is \<open>None\<close> here.
\<close>

record metrics_json =
  j_blocksProduced :: "int option"
  j_blocksMissed :: "int option"
  j_eraPoints :: "int option"
  j_lastActiveEra :: "int option"
  j_reputationScore :: "int option"

record validator_set_json =
  j_eraIndex :: "int option"
  j_stakeValidators :: "string list option"
  j_parliamentaryValidators :: "string list option"
  j_meritValidators :: "string list option"

text \<open>
  The codec returned by \<open>currentValidatorSet()\<close>: its \<open>isEmpty\<close> flag and the result
  of \<open>toJSON()\<close> (\<open>None\<close> is JSON \<open>null\<close>).
\<close>

record validator_set_codec =
  vs_isEmpty :: bool
  vs_toJSON :: "validator_set_json option"

text \<open>
  \<open>q_poolMembers\<close> is the storage map \<open>poolMembers\<close> in the order \<open>entries()\<close>
  enumerates it; a keyed query \<open>poolMembers(account)\<close> is a lookup in it.
  \<open>q_currentValidatorSet\<close> is \<open>None\<close> when the query answers a falsy value.
\<close>

record api =
  q_currentEra :: "int option"
  q_poolSize :: "int option"
  q_eraLength :: "int option"
  q_eraStart :: "int option"
  q_header_number :: int
  q_currentValidatorSet :: "validator_set_codec option"
  q_poolMembers :: "(string \<times> ValidatorPoolCategory) list"
  q_performanceMetrics :: "string \<Rightarrow> metrics_json option"

datatype js_error = TypeError

text \<open>JavaScript \<open>x || 0\<close> on a number that may be missing, and \<open>x || []\<close> on an array.\<close>

definition or_zero :: "int option \<Rightarrow> int" where
  "or_zero v = (case v of None \<Rightarrow> 0 | Some n \<Rightarrow> if n = 0 then 0 else n)"

definition or_empty :: "'a list option \<Rightarrow> 'a list" where
  "or_empty v = (case v of None \<Rightarrow> [] | Some xs \<Rightarrow> xs)"

subsection \<open>Query functions\<close>

definition getCurrentEra :: "api \<Rightarrow> int" where
  "getCurrentEra a = or_zero (q_currentEra a)"

definition getEraLength :: "api \<Rightarrow> int" where
  "getEraLength a = or_zero (q_eraLength a)"

definition getEraStartBlock :: "api \<Rightarrow> int" where
  "getEraStartBlock a = or_zero (q_eraStart a)"


text \<open>
  \<open>getCurrentValidatorSet\<close>: the guard \<open>!validatorSet || validatorSet.isEmpty\<close> comes
  first; past it, reading a field of a \<open>null\<close> JSON value throws.
\<close>

definition getCurrentValidatorSet :: "api \<Rightarrow> js_error + ValidatorSet" where
  "getCurrentValidatorSet a =
     (case q_currentValidatorSet a of
        None \<Rightarrow>
          Inr \<lparr> eraIndex = 0, stakeValidators = [], parliamentaryValidators = [],
                meritValidators = [] \<rparr>
      | Some validatorSet \<Rightarrow>
          if vs_isEmpty validatorSet then
            Inr \<lparr> eraIndex = 0, stakeValidators = [], parliamentaryValidators = [],
                  meritValidators = [] \<rparr>
          else
            (case vs_toJSON validatorSet of
               None \<Rightarrow> Inl TypeError
             | Some data \<Rightarrow>
                 Inr \<lparr> eraIndex = or_zero (j_eraIndex data),
                       stakeValidators = or_empty (j_stakeValidators data),
                       parliamentaryValidators = or_empty (j_parliamentaryValidators data),
                       meritValidators = or_empty (j_meritValidators data) \<rparr>))"

text \<open>The keyed query \<open>api.query.validatorPool.poolMembers(accountAddress)\<close>.\<close>

definition poolMembers :: "api \<Rightarrow> string \<Rightarrow> ValidatorPoolCategory option" where
  "poolMembers a accountAddress = map_of (q_poolMembers a) accountAddress"

definition isInPool :: "api \<Rightarrow> string \<Rightarrow> bool" where
  "isInPool a accountAddress = (poolMembers a accountAddress \<noteq> None)"

definition getValidatorCategory :: "api \<Rightarrow> string \<Rightarrow> ValidatorPoolCategory option" where
  "getValidatorCategory a accountAddress =
     (case poolMembers a accountAddress of
        None \<Rightarrow> None
      | Some categoryData \<Rightarrow> Some categoryData)"

text \<open>
  The body of the loop of \<open>getAllPoolMembers\<close> for one entry: the performance record
  read from the metrics (all zero when there is none) and the member built from it.
\<close>

definition performance_of :: "metrics_json option \<Rightarrow> ValidatorPerformance" where
  "performance_of metricsData =
     (case metricsData of
        Some d \<Rightarrow>
          \<lparr> blocksProduced = or_zero (j_blocksProduced d),
            blocksMissed = or_zero (j_blocksMissed d),
            eraPoints = or_zero (j_eraPoints d),
            lastActiveEra = or_zero (j_lastActiveEra d),
            reputationScore = or_zero (j_reputationScore d) \<rparr>
      | None \<Rightarrow>
          \<lparr> blocksProduced = 0, blocksMissed = 0, eraPoints = 0, lastActiveEra = 0,
            reputationScore = 0 \<rparr>)"

definition build_member :: "api \<Rightarrow> string \<times> ValidatorPoolCategory \<Rightarrow> PoolMember" where
  "build_member a entry =
     (let account' = fst entry;
          category' = snd entry;
          metricsData = q_performanceMetrics a account';
          performance' = performance_of metricsData
      in \<lparr> account = account', category = category', performance = performance',
           isActive = (reputationScore performance' \<ge> 70) \<rparr>)"

text \<open>The \<open>for ... of entries\<close> loop, pushing onto \<open>members\<close>.\<close>

fun hydrate :: "api \<Rightarrow> (string \<times> ValidatorPoolCategory) list \<Rightarrow> PoolMember list
    \<Rightarrow> PoolMember list" where
  "hydrate a [] members = members"
| "hydrate a (entry # entries) members = hydrate a entries (members @ [build_member a entry])"

definition getAllPoolMembers :: "api \<Rightarrow> PoolMember list" where
  "getAllPoolMembers a = hydrate a (q_poolMembers a) []"

definition getPoolMembersByCategory :: "api \<Rightarrow> ValidatorPoolCategory \<Rightarrow> PoolMember list" where
  "getPoolMembersByCategory a c = filter (\<lambda>m. category m = c) (getAllPoolMembers a)"

subsection \<open>Transaction functions\<close>

text \<open>
  A transaction function builds an extrinsic and hands it to \<open>signAndSend\<close>; the node
  then calls the callback with a sequence of status events. The promise settles on the
  first event that is in a block: rejected with the dispatch error if there is one,
  resolved otherwise; with no such event it stays pending. The model returns the calls
  made to the chain and how the promise ends.
\<close>

datatype extrinsic =
  JoinValidatorPool ValidatorPoolCategory
  | LeaveValidatorPool
  | UpdateCategory ValidatorPoolCategory

datatype chain_call = SignAndSend string extrinsic

record tx_event =
  isInBlock :: bool
  dispatchError :: "string option"

datatype promise = Pending | Resolved | Rejected string

fun settle :: "tx_event list \<Rightarrow> promise" where
  "settle [] = Pending"
| "settle (e # es) =
     (if isInBlock e then
        (case dispatchError e of Some err \<Rightarrow> Rejected err | None \<Rightarrow> Resolved)
      else settle es)"

definition joinValidatorPool ::
    "api \<Rightarrow> string \<Rightarrow> ValidatorPoolCategory \<Rightarrow> tx_event list \<Rightarrow> chain_call list \<times> promise" where
  "joinValidatorPool a signerAddress c events =
     (let tx = JoinValidatorPool c
      in ([SignAndSend signerAddress tx], settle events))"

subsection \<open>Helper functions\<close>

definition estimateEraRewards :: "number \<Rightarrow> number \<Rightarrow> number \<Rightarrow> number" where
  "estimateEraRewards eraPoints' totalEraPoints totalRewards =
     (if js_eq totalEraPoints (Fin 0) then Fin 0
      else js_mul (js_div eraPoints' totalEraPoints) totalRewards)"

record ReputationStatus =
  label :: string
  color :: string
  canValidate :: bool

definition getReputationStatus :: "int \<Rightarrow> ReputationStatus" where
  "getReputationStatus score =
     (if score \<ge> 90 then \<lparr> label = ''Excellent'', color = ''green'', canValidate = True \<rparr>
      else if score \<ge> 70 then \<lparr> label = ''Good'', color = ''blue'', canValidate = True \<rparr>
      else if score \<ge> 50 then \<lparr> label = ''Fair'', color = ''yellow'', canValidate = False \<rparr>
      else \<lparr> label = ''Poor'', color = ''red'', canValidate = False \<rparr>)"

record TimeEstimate =
  days :: number
  hours :: number
  minutes :: number

definition blocksToTime :: "number \<Rightarrow> TimeEstimate" where
  "blocksToTime blocks =
     (let seconds = js_mul blocks (Fin 6);
          days' = Math_floor (js_div seconds (Fin 86400));
          hours' = Math_floor (js_div (js_rem seconds (Fin 86400)) (Fin 3600));
          minutes' = Math_floor (js_div (js_rem seconds (Fin 3600)) (Fin 60))
      in \<lparr> days = days', hours = hours', minutes = minutes' \<rparr>)"

subsection \<open>Example snapshots\<close>

text \<open>
  A pool of two members: \<open>alice\<close> with a performance record, \<open>bob\<close> without one. The
  current validator set is absent in the first snapshot, and present but empty in the
  second.
\<close>

definition example_api :: api where
  "example_api =
     \<lparr> q_currentEra = Some 7, q_poolSize = Some 2, q_eraLength = Some 100,
       q_eraStart = Some 1000, q_header_number = 1150,
       q_currentValidatorSet = None,
       q_poolMembers = [(''alice'', StakeValidator), (''bob'', MeritValidator)],
       q_performanceMetrics =
         [''alice'' \<mapsto> \<lparr> j_blocksProduced = Some 100, j_blocksMissed = Some 5,
                           j_eraPoints = Some 950, j_lastActiveEra = Some 7,
                           j_reputationScore = Some 92 \<rparr>] \<rparr>"

definition example_api_empty_set :: api where
  "example_api_empty_set =
     example_api \<lparr> q_currentValidatorSet := Some \<lparr> vs_isEmpty = True, vs_toJSON = None \<rparr> \<rparr>"

definition example_alice :: PoolMember where
  "example_alice =
     \<lparr> account = ''alice'', category = StakeValidator,
       performance = \<lparr> blocksProduced = 100, blocksMissed = 5, eraPoints = 950,
                       lastActiveEra = 7, reputationScore = 92 \<rparr>,
       isActive = True \<rparr>"

definition example_bob :: PoolMember where
  "example_bob =
     \<lparr> account = ''bob'', category = MeritValidator,
       performance = \<lparr> blocksProduced = 0, blocksMissed = 0, eraPoints = 0,
                       lastActiveEra = 0, reputationScore = 0 \<rparr>,
       isActive = False \<rparr>"

section \<open>Properties\<close>

lemma hydrate_eq: "hydrate a entries members = members @ map (build_member a) entries"
  by (induction entries arbitrary: members) simp_all

lemma getAllPoolMembers_map: "getAllPoolMembers a = map (build_member a) (q_poolMembers a)"
  by (simp add: getAllPoolMembers_def hydrate_eq)

lemma example_members: "getAllPoolMembers example_api = [example_alice, example_bob]"
  by (simp add: getAllPoolMembers_def example_api_def example_alice_def example_bob_def
      build_member_def performance_of_def or_zero_def)

lemma binade_bounds:
  assumes "x \<noteq> 0"
  shows "2 powi binade x \<le> \<bar>x\<bar>" and "\<bar>x\<bar> < 2 powi (binade x + 1)"
proof -
  have "2 powi binade x \<le> \<bar>x\<bar> \<and> \<bar>x\<bar> < 2 powi (binade x + 1)"
  proof (cases "1 \<le> \<bar>x\<bar>")
    case True
    define m where "m = \<lfloor>\<bar>x\<bar>\<rfloor>"
    have mpos: "0 < m" using True by (simp add: m_def)
    have e: "binade x = bitlen m - 1" using True by (simp add: binade_def m_def)
    have b1: "1 \<le> bitlen m" using mpos bitlen_eq_zero_iff [of m] bitlen_nonneg [of m] by linarith
    from bitlen_bounds [OF mpos]
    have lo: "2 ^ nat (bitlen m - 1) \<le> m" and hi: "m < 2 ^ nat (bitlen m)" by simp_all
    have p1: "(2::real) powi (bitlen m - 1) = 2 ^ nat (bitlen m - 1)"
      using b1 by (simp add: power_int_def)
    have p2: "(2::real) powi (bitlen m - 1 + 1) = 2 ^ nat (bitlen m)"
      using b1 by (simp add: power_int_def)
    have "(2::real) ^ nat (bitlen m - 1) \<le> real_of_int m"
      using lo of_int_le_iff [of "2 ^ nat (bitlen m - 1)" m, where ?'a = real] by simp
    moreover have "real_of_int m \<le> \<bar>x\<bar>" by (simp add: m_def)
    ultimately have l: "(2::real) ^ nat (bitlen m - 1) \<le> \<bar>x\<bar>" by linarith
    have "m + 1 \<le> 2 ^ nat (bitlen m)" using hi by simp
    then have "real_of_int (m + 1) \<le> (2::real) ^ nat (bitlen m)"
      using of_int_le_iff [of "m + 1" "2 ^ nat (bitlen m)", where ?'a = real] by simp
    moreover have "\<bar>x\<bar> < real_of_int (m + 1)" by (simp add: m_def)
    ultimately have u: "\<bar>x\<bar> < (2::real) ^ nat (bitlen m)" by linarith
    show ?thesis using l u by (simp only: e p1 p2)
  next
    case False
    define y where "y = 1 / \<bar>x\<bar>"
    define c where "c = \<lceil>y\<rceil>"
    have xpos: "0 < \<bar>x\<bar>" using assms by simp
    have y1: "1 < y" using False xpos by (simp add: y_def)
    have c2: "2 \<le> c" using y1 by (simp add: c_def)
    define k where "k = bitlen (c - 1)"
    have e: "binade x = - k" using False by (simp add: binade_def k_def c_def y_def)
    have cpos: "0 < c - 1" using c2 by simp
    have k1: "1 \<le> k" using cpos bitlen_eq_zero_iff [of "c - 1"] bitlen_nonneg [of "c - 1"]
      unfolding k_def by linarith
    from bitlen_bounds [OF cpos]
    have lo: "2 ^ nat (k - 1) \<le> c - 1" and hi: "c - 1 < 2 ^ nat k" by (simp_all add: k_def)
    have p1: "(2::real) powi (- k) = 1 / 2 ^ nat k"
      using k1 by (simp add: power_int_def field_simps)
    have p2: "(2::real) powi (- k + 1) = 1 / 2 ^ nat (k - 1)"
      using k1 by (simp add: power_int_def field_simps nat_diff_distrib)
    have "c \<le> 2 ^ nat k" using hi by simp
    then have "real_of_int c \<le> (2::real) ^ nat k"
      using of_int_le_iff [of c "2 ^ nat k", where ?'a = real] by simp
    moreover have "y \<le> real_of_int c" by (simp add: c_def)
    ultimately have yle: "y \<le> 2 ^ nat k" by linarith
    have "(2::real) ^ nat (k - 1) \<le> real_of_int (c - 1)"
      using lo of_int_le_iff [of "2 ^ nat (k - 1)" "c - 1", where ?'a = real] by simp
    moreover have "real_of_int (c - 1) < y" unfolding c_def by linarith
    ultimately have ygt: "2 ^ nat (k - 1) < y" by linarith
    have xy: "\<bar>x\<bar> = 1 / y" using xpos by (simp add: y_def)
    have ypos: "0 < y" using y1 by simp
    have l: "1 / 2 ^ nat k \<le> \<bar>x\<bar>"
      unfolding xy using yle ypos by (simp add: field_simps)
    have u: "\<bar>x\<bar> < 1 / 2 ^ nat (k - 1)"
      unfolding xy using ygt ypos by (simp add: field_simps)
    show ?thesis using l u by (simp only: e p1 p2)
  qed
  then show "2 powi binade x \<le> \<bar>x\<bar>" and "\<bar>x\<bar> < 2 powi (binade x + 1)" by simp_all
qed

lemma binade_le:
  assumes "x \<noteq> 0" and "\<bar>x\<bar> < 2 powi (E + 1)"
  shows "binade x \<le> E"
proof -
  have lt: "(2::real) powi binade x < 2 powi (E + 1)"
    using binade_bounds(1) [OF assms(1)] assms(2) by linarith
  have "\<not> E + 1 \<le> binade x"
  proof
    assume "E + 1 \<le> binade x"
    then have "(2::real) powi (E + 1) \<le> 2 powi binade x"
      by (rule power_int_increasing) simp
    with lt show False by simp
  qed
  then show ?thesis by simp
qed

lemma binade_ge:
  assumes "x \<noteq> 0" and "2 powi E \<le> \<bar>x\<bar>"
  shows "E \<le> binade x"
proof -
  have lt: "(2::real) powi E < 2 powi (binade x + 1)"
    using binade_bounds(2) [OF assms(1)] assms(2) by linarith
  have "\<not> binade x + 1 \<le> E"
  proof
    assume "binade x + 1 \<le> E"
    then have "(2::real) powi (binade x + 1) \<le> 2 powi E"
      by (rule power_int_increasing) simp
    with lt show False by simp
  qed
  then show ?thesis by simp
qed

lemma round_half_even_of_int: "round_half_even (of_int k) = k"
  by (simp add: round_half_even_def)

lemma round_half_even_ge: "of_int N \<le> y \<Longrightarrow> N \<le> round_half_even y"
proof -
  assume "of_int N \<le> y"
  then have "N \<le> \<lfloor>y\<rfloor>" by (simp add: le_floor_iff)
  then show ?thesis by (simp add: round_half_even_def Let_def)
qed

lemma round_half_even_less: 
  assumes "y < of_int N - 1 / 2"
  shows "round_half_even y \<le> N - 1"
proof -
  have "y < of_int N" using assms by linarith
  then have f: "\<lfloor>y\<rfloor> \<le> N - 1" by (simp add: floor_less_iff)
  show ?thesis
  proof (cases "\<lfloor>y\<rfloor> = N - 1")
    case True
    then have "y - of_int \<lfloor>y\<rfloor> < 1 / 2" using assms by simp
    then show ?thesis using True by (simp add: round_half_even_def Let_def)
  next
    case False
    then have "\<lfloor>y\<rfloor> + 1 \<le> N - 1" using f by linarith
    then show ?thesis by (simp add: round_half_even_def Let_def)
  qed
qed

lemma round_double_of_int:
  assumes bound: "\<bar>n\<bar> \<le> 2 ^ 53"
  shows "round_double (of_int n) = Fin (of_int n)"
proof (cases "n = 0")
  case True
  then show ?thesis by (simp add: round_double_def)
next
  case False
  define x :: real where "x = of_int n"
  define e where "e = binade x"
  have x0: "x \<noteq> 0" using False by (simp add: x_def)
  have ax: "\<bar>x\<bar> = of_int \<bar>n\<bar>" by (simp add: x_def)
  have "1 \<le> \<bar>n\<bar>" using False by simp
  then have "(1::real) \<le> of_int \<bar>n\<bar>" by linarith
  then have "(2::real) powi 0 \<le> \<bar>x\<bar>" by (simp add: ax)
  then have e_lo: "0 \<le> e" unfolding e_def using x0 by (rule binade_ge [rotated])
  have le53: "\<bar>x\<bar> \<le> 2 ^ 53"
    using bound of_int_le_iff [of "\<bar>n\<bar>" "2 ^ 53", where ?'a = real] by (simp add: ax)
  then have "\<bar>x\<bar> < 2 powi (53 + 1)" by simp
  then have e_hi: "e \<le> 53" unfolding e_def using x0 by (rule binade_le [rotated])
  have small: "\<not> 2 powi 1024 \<le> x" "\<not> x \<le> - (2 powi 1024)"
    using le53 by simp_all
  have v: "of_int (round_half_even (x / 2 powi (e - 52))) * 2 powi (e - 52) = x"
  proof (cases "e \<le> 52")
    case True
    define j where "j = nat (52 - e)"
    have p: "(2::real) powi (e - 52) = 1 / 2 ^ j"
      using True by (simp add: power_int_def j_def field_simps)
    have "x / (1 / 2 ^ j) = of_int (n * 2 ^ j)" by (simp add: x_def)
    then have "round_half_even (x / (1 / 2 ^ j)) = n * 2 ^ j"
      by (simp only: round_half_even_of_int)
    then show ?thesis by (simp add: p x_def)
  next
    case False
    then have e53: "e = 53" using e_hi by simp
    have "2 powi e \<le> \<bar>x\<bar>" unfolding e_def using x0 by (rule binade_bounds(1))
    then have "(2::real) ^ 53 \<le> of_int \<bar>n\<bar>" by (simp add: e53 ax)
    then have "2 ^ 53 \<le> \<bar>n\<bar>"
      using of_int_le_iff [of "2 ^ 53" "\<bar>n\<bar>", where ?'a = real] by simp
    then have "\<bar>n\<bar> = 2 ^ 53" using bound by simp
    then have "n = 2 ^ 53 \<or> n = - (2 ^ 53)" by linarith
    then have "n = 2 * (n div 2)" by (elim disjE) simp_all
    then have "x / 2 = of_int (n div 2)" unfolding x_def
      by (metis nonzero_mult_div_cancel_left of_int_mult of_int_numeral zero_neq_numeral)
    then have "round_half_even (x / 2) = n div 2"
      by (simp only: round_half_even_of_int)
    moreover have "real_of_int (n div 2) * 2 = x" using \<open>x / 2 = of_int (n div 2)\<close> by simp
    ultimately show ?thesis by (simp add: e53)
  qed
  have q: "max (binade x - 52) (- 1074) = e - 52" using e_lo by (simp add: e_def)
  show ?thesis
    unfolding round_double_def Let_def q x_def [symmetric]
    using x0 small by (simp add: v)
qed

lemma floor_round_div:
  assumes a0: "0 < a" and b0: "0 < b" and b17: "b < 2 ^ 17" and ab: "a < b * 2 ^ 37"
  shows "\<exists>r. round_double (of_int a / of_int b) = Fin r \<and> \<lfloor>r\<rfloor> = a div b"
proof -
  define x :: real where "x = of_int a / of_int b"
  define e where "e = binade x"
  define n where "n = a div b"
  have rb: "0 < real_of_int b" using b0 by simp
  have ra: "0 < real_of_int a" using a0 by simp
  have xpos: "0 < x" using ra rb by (simp add: x_def)
  have x0: "x \<noteq> 0" using xpos by simp
  have ax: "\<bar>x\<bar> = x" using xpos by simp
  have rb17: "real_of_int b < 2 ^ 17"
    using b17 of_int_less_iff [of b "2 ^ 17", where ?'a = real] by simp
  have rab: "real_of_int a < real_of_int b * 2 ^ 37"
    using ab of_int_less_iff [of a "b * 2 ^ 37", where ?'a = real] by simp
  have x_hi: "x < 2 ^ 37" using rab rb by (simp add: x_def field_simps)
  have "1 \<le> real_of_int a" using a0 by linarith
  then have "1 / 2 ^ 17 \<le> x" using rb rb17 unfolding x_def
    by (simp add: field_simps) 
  then have "(2::real) powi (- 17) \<le> \<bar>x\<bar>" by (simp add: ax power_int_minus field_simps)
  then have e_lo: "- 17 \<le> e" unfolding e_def using x0 by (rule binade_ge [rotated])
  have "\<bar>x\<bar> < 2 powi (36 + 1)" using x_hi by (simp add: ax)
  then have e_hi: "e \<le> 36" unfolding e_def using x0 by (rule binade_le [rotated])
  define j where "j = nat (52 - e)"
  define P :: real where "P = 2 ^ j"
  have j16: "16 \<le> j" using e_hi by (simp add: j_def)
  have Ppos: "0 < P" by (simp add: P_def)
  have "(2::real) ^ 16 \<le> 2 ^ j" using j16 by (rule power_increasing) simp
  then have P16: "2 ^ 16 \<le> P" by (simp add: P_def)
  have p: "(2::real) powi (e - 52) = 1 / P"
    using e_hi by (simp add: power_int_def j_def P_def field_simps)
  have q: "max (binade x - 52) (- 1074) = e - 52" using e_lo by (simp add: e_def)
  define y where "y = x * P"
  define m where "m = round_half_even y"
  have n_le: "of_int n \<le> x"
    unfolding n_def x_def using floor_divide_of_int_eq [of a b, where ?'a = real]
    by (metis of_int_floor_le)
  have "a mod b \<le> b - 1" using b0 by simp
  moreover have "a = n * b + a mod b" by (simp add: n_def)
  ultimately have "a \<le> n * b + b - 1" by linarith
  then have "real_of_int a \<le> real_of_int (n * b + b - 1)" by linarith
  then have "real_of_int a \<le> (of_int n + 1) * of_int b - 1" by (simp add: algebra_simps)
  then have x_le: "x \<le> of_int n + 1 - 1 / of_int b"
    using rb by (simp add: x_def field_simps)
  have half: "1 / 2 < P / of_int b" using rb rb17 P16 by (simp add: field_simps)
  have "of_int (n * 2 ^ j) \<le> y" using n_le Ppos by (simp add: y_def P_def)
  then have m_lo: "n * 2 ^ j \<le> m" unfolding m_def by (rule round_half_even_ge)
  have "y \<le> (of_int n + 1 - 1 / of_int b) * P"
    unfolding y_def using x_le Ppos by (simp only: mult_right_mono less_imp_le)
  also have "\<dots> = of_int ((n + 1) * 2 ^ j) - P / of_int b"
    by (simp add: P_def algebra_simps)
  also have "\<dots> < of_int ((n + 1) * 2 ^ j) - 1 / 2" using half by linarith
  finally have "y < of_int ((n + 1) * 2 ^ j) - 1 / 2" .
  then have m_hi: "m \<le> (n + 1) * 2 ^ j - 1" unfolding m_def by (rule round_half_even_less)
  define r where "r = of_int m * (1 / P)"
  have "real_of_int (n * 2 ^ j) \<le> of_int m" using m_lo by linarith
  then have r_lo: "of_int n \<le> r" using Ppos by (simp add: r_def P_def field_simps)
  have "real_of_int m \<le> of_int ((n + 1) * 2 ^ j - 1)" using m_hi by linarith
  then have "real_of_int m < (of_int n + 1) * P" by (simp add: P_def)
  then have r_hi: "r < of_int n + 1" using Ppos by (simp add: r_def field_simps)
  have fl: "\<lfloor>r\<rfloor> = n" using r_lo r_hi by (simp add: floor_unique)
  have "0 \<le> real_of_int n" using n_le r_lo a0 b0 by (simp add: n_def pos_imp_zdiv_nonneg_iff)
  then have r0: "0 \<le> r" using r_lo by linarith
  have "r < x + 1" using r_hi n_le by linarith
  then have "r < 2 ^ 37 + 1" using x_hi by linarith
  also have "\<dots> < (2::real) ^ 1024" by simp
  finally have r_small: "r < 2 ^ 1024" .
  have small: "\<not> 2 powi 1024 \<le> r" "\<not> r \<le> - (2 powi 1024)"
    using r_small r0 by simp_all
  have "round_double x = Fin r"
    unfolding round_double_def Let_def q p
    using x0 small by (simp add: r_def m_def y_def)
  then show ?thesis using fl by (auto simp: x_def n_def)
qed




lemma js_mul_exact: "\<bar>a * b\<bar> \<le> 2 ^ 53 \<Longrightarrow> js_mul (num a) (num b) = num (a * b)"
  using round_double_of_int [of "a * b"] by (simp add: num_def)




lemma js_rem_exact:
  assumes "0 \<le> a" and "0 < b"
  shows "js_rem (num a) (num b) = num (a mod b)"
proof -
  have "0 \<le> real_of_int a / real_of_int b" using assms by simp
  then have "trunc_zero (real_of_int a / real_of_int b) = a div b"
    by (simp add: trunc_zero_def floor_divide_of_int_eq)
  moreover have "real_of_int a - real_of_int b * real_of_int (a div b) = real_of_int (a mod b)"
    by (simp add: minus_mult_div_eq_mod [symmetric] del: minus_mult_div_eq_mod)
  ultimately show ?thesis using assms by (simp add: num_def)
qed

lemma floor_div_exact:
  assumes "0 \<le> a" and "0 < b" and "b < 2 ^ 17" and "a < b * 2 ^ 37"
  shows "Math_floor (js_div (num a) (num b)) = num (a div b)"
proof (cases "a = 0")
  case True
  then show ?thesis using assms by (simp add: num_def round_double_def)
next
  case False
  then have "0 < a" using assms by simp
  from floor_round_div [OF this assms(2) assms(3) assms(4)]
  obtain r where "round_double (of_int a / of_int b) = Fin r" and "\<lfloor>r\<rfloor> = a div b"
    by blast
  then show ?thesis using assms by (simp add: num_def)
qed

text \<open>Unfolding rules that evaluate the rounding at a concrete value.\<close>

lemmas round_double_eval =
  round_double_def binade_def round_half_even_def compute_bitlen Let_def num_def
  trunc_zero_def

lemma category_filters_partition:
  "mset (filter (\<lambda>m. category m = StakeValidator) xs)
     + mset (filter (\<lambda>m. category m = ParliamentaryValidator) xs)
     + mset (filter (\<lambda>m. category m = MeritValidator) xs) = mset xs"
proof (induction xs)
  case Nil
  show ?case by simp
next
  case (Cons x xs)
  then show ?case by (cases "category x") simp_all
qed

subsection \<open>Hydration\<close>

text \<open>
  Claim C1. Every member that \<open>getAllPoolMembers\<close> builds has \<open>isActive\<close> equal to
  the threshold predicate \<open>reputationScore >= 70\<close> over its own performance record.
\<close>

theorem getAllPoolMembers_isActive:
  "m \<in> set (getAllPoolMembers a) \<Longrightarrow> isActive m = (reputationScore (performance m) \<ge> 70)"
  by (auto simp: getAllPoolMembers_map build_member_def Let_def)

theorem getAllPoolMembers_isActive_witness:
  "example_alice \<in> set (getAllPoolMembers example_api)
   \<and> isActive example_alice = (reputationScore (performance example_alice) \<ge> 70)
   \<and> isActive example_alice"
proof -
  have h: "example_alice \<in> set (getAllPoolMembers example_api)"
    by (simp add: example_members)
  have "isActive example_alice" by (simp add: example_alice_def)
  with h getAllPoolMembers_isActive [OF h] show ?thesis by blast
qed

text \<open>
  Claim C6. A member whose account has no performance record in the lookup is built
  with the all-zero performance record, and so is not active.
\<close>

theorem getAllPoolMembers_missing_metrics:
  "m \<in> set (getAllPoolMembers a) \<Longrightarrow> q_performanceMetrics a (account m) = None \<Longrightarrow>
   performance m = \<lparr> blocksProduced = 0, blocksMissed = 0, eraPoints = 0, lastActiveEra = 0,
                     reputationScore = 0 \<rparr>
   \<and> \<not> isActive m"
  by (auto simp: getAllPoolMembers_map build_member_def Let_def performance_of_def)

theorem getAllPoolMembers_missing_metrics_witness:
  "example_bob \<in> set (getAllPoolMembers example_api)
   \<and> q_performanceMetrics example_api (account example_bob) = None
   \<and> performance example_bob = \<lparr> blocksProduced = 0, blocksMissed = 0, eraPoints = 0,
                                  lastActiveEra = 0, reputationScore = 0 \<rparr>
   \<and> \<not> isActive example_bob"
proof -
  have h1: "example_bob \<in> set (getAllPoolMembers example_api)"
    by (simp add: example_members)
  have h2: "q_performanceMetrics example_api (account example_bob) = None"
    by (simp add: example_api_def example_bob_def)
  from h1 h2 getAllPoolMembers_missing_metrics [OF h1 h2] show ?thesis by blast
qed

text \<open>
  Claim C5. A category-filtered listing is a subsequence of the full listing (same
  relative order). The three listings partition the full listing: together they hold
  each member as often as the full listing does, they are pairwise disjoint, and each
  member of the full listing is in the listing of exactly one category.
\<close>

theorem getPoolMembersByCategory_partition:
  "subseq (getPoolMembersByCategory a c) (getAllPoolMembers a)
   \<and> mset (getPoolMembersByCategory a StakeValidator)
       + mset (getPoolMembersByCategory a ParliamentaryValidator)
       + mset (getPoolMembersByCategory a MeritValidator) = mset (getAllPoolMembers a)
   \<and> set (getPoolMembersByCategory a StakeValidator)
       \<inter> set (getPoolMembersByCategory a ParliamentaryValidator) = {}
   \<and> set (getPoolMembersByCategory a StakeValidator)
       \<inter> set (getPoolMembersByCategory a MeritValidator) = {}
   \<and> set (getPoolMembersByCategory a ParliamentaryValidator)
       \<inter> set (getPoolMembersByCategory a MeritValidator) = {}
   \<and> (m \<in> set (getAllPoolMembers a) \<longrightarrow> (\<exists>!k. m \<in> set (getPoolMembersByCategory a k)))"
  unfolding getPoolMembersByCategory_def
  using category_filters_partition [of "getAllPoolMembers a"] by auto

theorem getPoolMembersByCategory_partition_witness:
  "example_alice \<in> set (getAllPoolMembers example_api)
   \<and> getPoolMembersByCategory example_api StakeValidator = [example_alice]
   \<and> getPoolMembersByCategory example_api ParliamentaryValidator = []
   \<and> getPoolMembersByCategory example_api MeritValidator = [example_bob]
   \<and> (\<exists>!k. example_alice \<in> set (getPoolMembersByCategory example_api k))"
proof -
  have h: "example_alice \<in> set (getAllPoolMembers example_api)"
    by (simp add: example_members)
  have v: "getPoolMembersByCategory example_api StakeValidator = [example_alice]"
    "getPoolMembersByCategory example_api ParliamentaryValidator = []"
    "getPoolMembersByCategory example_api MeritValidator = [example_bob]"
    by (simp_all add: getPoolMembersByCategory_def example_members example_alice_def
        example_bob_def)
  from h v getPoolMembersByCategory_partition [of example_api StakeValidator example_alice]
  show ?thesis by blast
qed

subsection \<open>Membership queries\<close>

text \<open>
  Claim C9. On one chain state the two membership queries agree: \<open>isInPool\<close> answers
  true exactly when \<open>getValidatorCategory\<close> answers a category (not \<open>null\<close>).
\<close>

theorem isInPool_iff_getValidatorCategory:
  "isInPool a accountAddress \<longleftrightarrow> getValidatorCategory a accountAddress \<noteq> None"
  by (simp add: isInPool_def getValidatorCategory_def split: option.splits)

subsection \<open>Era clock and validator set\<close>




text \<open>
  Claim C7. When the chain's current validator set is absent or empty,
  \<open>getCurrentValidatorSet\<close> returns, without an error, the validator set with era
  index 0 and three empty lists.
\<close>

theorem getCurrentValidatorSet_absent_or_empty:
  "q_currentValidatorSet a = None \<or> (\<exists>v. q_currentValidatorSet a = Some v \<and> vs_isEmpty v) \<Longrightarrow>
   getCurrentValidatorSet a =
     Inr \<lparr> eraIndex = 0, stakeValidators = [], parliamentaryValidators = [],
           meritValidators = [] \<rparr>"
  by (auto simp: getCurrentValidatorSet_def)

theorem getCurrentValidatorSet_absent_or_empty_witness:
  "q_currentValidatorSet example_api = None
   \<and> getCurrentValidatorSet example_api =
       Inr \<lparr> eraIndex = 0, stakeValidators = [], parliamentaryValidators = [],
             meritValidators = [] \<rparr>
   \<and> q_currentValidatorSet example_api_empty_set = Some \<lparr> vs_isEmpty = True, vs_toJSON = None \<rparr>
   \<and> getCurrentValidatorSet example_api_empty_set =
       Inr \<lparr> eraIndex = 0, stakeValidators = [], parliamentaryValidators = [],
             meritValidators = [] \<rparr>"
proof -
  have h1: "q_currentValidatorSet example_api = None"
    by (simp add: example_api_def)
  have h2: "q_currentValidatorSet example_api_empty_set
      = Some \<lparr> vs_isEmpty = True, vs_toJSON = None \<rparr>"
    by (simp add: example_api_empty_set_def)
  have p1: "q_currentValidatorSet example_api = None
      \<or> (\<exists>v. q_currentValidatorSet example_api = Some v \<and> vs_isEmpty v)"
    using h1 by simp
  have p2: "q_currentValidatorSet example_api_empty_set = None
      \<or> (\<exists>v. q_currentValidatorSet example_api_empty_set = Some v \<and> vs_isEmpty v)"
    using h2 by simp
  from h1 h2 getCurrentValidatorSet_absent_or_empty [OF p1]
    getCurrentValidatorSet_absent_or_empty [OF p2]
  show ?thesis by simp
qed

subsection \<open>Helper functions\<close>

text \<open>
  Claim C2. \<open>getReputationStatus\<close> answers one of the four tiers for every score, and
  the tier follows the range table: 90 and above is Excellent and can validate, 70 to 89
  is Good and can validate, 50 to 69 is Fair and cannot, below 50 is Poor and cannot.
  Each tier is answered on its own range only, so 90, 70 and 50 are inclusive lower
  bounds and the ranges neither overlap nor leave a gap.
\<close>

theorem getReputationStatus_table:
  "label (getReputationStatus score) \<in> {''Excellent'', ''Good'', ''Fair'', ''Poor''}
   \<and> (score \<ge> 90 \<longrightarrow> getReputationStatus score =
         \<lparr> label = ''Excellent'', color = ''green'', canValidate = True \<rparr>)
   \<and> (70 \<le> score \<and> score \<le> 89 \<longrightarrow> getReputationStatus score =
         \<lparr> label = ''Good'', color = ''blue'', canValidate = True \<rparr>)
   \<and> (50 \<le> score \<and> score \<le> 69 \<longrightarrow> getReputationStatus score =
         \<lparr> label = ''Fair'', color = ''yellow'', canValidate = False \<rparr>)
   \<and> (score < 50 \<longrightarrow> getReputationStatus score =
         \<lparr> label = ''Poor'', color = ''red'', canValidate = False \<rparr>)
   \<and> (label (getReputationStatus score) = ''Excellent'' \<longleftrightarrow> score \<ge> 90)
   \<and> (label (getReputationStatus score) = ''Good'' \<longleftrightarrow> 70 \<le> score \<and> score \<le> 89)
   \<and> (label (getReputationStatus score) = ''Fair'' \<longleftrightarrow> 50 \<le> score \<and> score \<le> 69)
   \<and> (label (getReputationStatus score) = ''Poor'' \<longleftrightarrow> score < 50)"
  by (simp add: getReputationStatus_def)

theorem getReputationStatus_table_witness:
  "getReputationStatus 90 = \<lparr> label = ''Excellent'', color = ''green'', canValidate = True \<rparr>
   \<and> getReputationStatus 89 = \<lparr> label = ''Good'', color = ''blue'', canValidate = True \<rparr>
   \<and> getReputationStatus 70 = \<lparr> label = ''Good'', color = ''blue'', canValidate = True \<rparr>
   \<and> getReputationStatus 69 = \<lparr> label = ''Fair'', color = ''yellow'', canValidate = False \<rparr>
   \<and> getReputationStatus 50 = \<lparr> label = ''Fair'', color = ''yellow'', canValidate = False \<rparr>
   \<and> getReputationStatus 49 = \<lparr> label = ''Poor'', color = ''red'', canValidate = False \<rparr>"
  using getReputationStatus_table [of 90] getReputationStatus_table [of 89]
    getReputationStatus_table [of 70] getReputationStatus_table [of 69]
    getReputationStatus_table [of 50] getReputationStatus_table [of 49]
  by simp

text \<open>
  Claim C4. \<open>estimateEraRewards x 0 y\<close> is 0 for all numbers \<open>x\<close> and \<open>y\<close>: the guard
  returns before the division. For a total other than 0 the estimate is the value of
  \<open>(eraPoints / totalEraPoints) * totalRewards\<close> in the arithmetic of the language, and
  that is the exact proportional split whenever the quotient and the product are doubles.
\<close>

theorem estimateEraRewards_split:
  "estimateEraRewards x (Fin 0) y = Fin 0
   \<and> (t \<noteq> Fin 0 \<longrightarrow> estimateEraRewards x t y = js_mul (js_div x t) y)
   \<and> (d \<noteq> 0 \<and> round_double (p / d) = Fin (p / d)
        \<and> round_double (p / d * r) = Fin (p / d * r) \<longrightarrow>
        estimateEraRewards (Fin p) (Fin d) (Fin r) = Fin (p / d * r))"
proof -
  have g: "js_eq t (Fin 0) \<longleftrightarrow> t = Fin 0" by (cases t) simp_all
  show ?thesis by (simp add: estimateEraRewards_def g)
qed

theorem estimateEraRewards_split_witness:
  "estimateEraRewards (Fin 1) (Fin 0) (Fin 100) = Fin 0
   \<and> estimateEraRewards NaN (Fin 0) PosInf = Fin 0
   \<and> js_mul (js_div (Fin 1) (Fin 0)) (Fin 100) = PosInf
   \<and> Fin 3 \<noteq> Fin 0
   \<and> estimateEraRewards (Fin 1) (Fin 3) (Fin 100) = Fin (4691249611844266 / 2 ^ 47)
   \<and> (4::real) \<noteq> 0
   \<and> round_double (1 / 4) = Fin (1 / 4)
   \<and> round_double (1 / 4 * 100) = Fin (1 / 4 * 100)
   \<and> estimateEraRewards (Fin 1) (Fin 4) (Fin 100) = Fin 25"
proof -
  have q: "round_double (1 / 4) = Fin (1 / 4)" by (simp add: round_double_eval)
  have m: "round_double (1 / 4 * 100) = Fin (1 / 4 * 100)" by (simp add: round_double_eval)
  have t: "round_double (1 / 3) = Fin (6004799503160661 / 2 ^ 54)" by (simp add: round_double_eval)
  have u: "round_double (6004799503160661 / 2 ^ 54 * 100) = Fin (4691249611844266 / 2 ^ 47)"
    by (simp add: round_double_eval)
  have i: "js_mul (js_div (Fin 1) (Fin 0)) (Fin 100) = PosInf" by simp
  have v: "js_mul (js_div (Fin 1) (Fin 3)) (Fin 100) = Fin (4691249611844266 / 2 ^ 47)"
    using t u by simp
  from estimateEraRewards_split [of "Fin 1" "Fin 100" "Fin 3" 4 1 100]
    estimateEraRewards_split [of NaN PosInf "Fin 3" 4 1 100] q m i v
  show ?thesis by simp
qed

text \<open>
  Claim C10, as stated: for every non-negative integer \<open>blocks\<close> the answer of
  \<open>blocksToTime\<close> satisfies \<open>blocks*6 < days*86400 + hours*3600 + minutes*60 + 60\<close>.
  At 6004799503160670 blocks the product \<open>blocks * 6\<close> is rounded down to a multiple
  of 8; the code answers 416999965497 days, 6 hours, 26 minutes, and the bound fails.
\<close>

theorem blocksToTime_decomposition_counterexample:
  "(0::int) \<le> 6004799503160670
   \<and> blocksToTime (num 6004799503160670)
       = \<lparr> days = num 416999965497, hours = num 6, minutes = num 26 \<rparr>
   \<and> \<not> ((6004799503160670::int) * 6 < 416999965497 * 86400 + 6 * 3600 + 26 * 60 + 60)"
proof -
  have s: "js_mul (num 6004799503160670) (Fin 6) = num 36028797018964016"
    by (simp add: round_double_eval)
  have d: "Math_floor (js_div (num 36028797018964016) (Fin 86400)) = num 416999965497"
    by (simp add: round_double_eval)
  have r1: "js_rem (num 36028797018964016) (Fin 86400) = num 23216"
    by (simp add: round_double_eval)
  have h: "Math_floor (js_div (num 23216) (Fin 3600)) = num 6"
    by (simp add: round_double_eval)
  have r2: "js_rem (num 36028797018964016) (Fin 3600) = num 1616"
    by (simp add: round_double_eval)
  have m: "Math_floor (js_div (num 1616) (Fin 60)) = num 26"
    by (simp add: round_double_eval)
  show ?thesis by (simp add: blocksToTime_def Let_def s d r1 h r2 m)
qed

text \<open>
  Claim C10, amended: for every non-negative integer \<open>blocks\<close> with
  \<open>blocks*6 \<le> 2^53\<close>, \<open>blocksToTime\<close> answers the integers
  \<open>days = blocks*6 div 86400\<close>, \<open>hours = blocks*6 mod 86400 div 3600\<close> and
  \<open>minutes = blocks*6 mod 3600 div 60\<close>; hours are in 0..23, minutes in 0..59, and
  \<open>days*86400 + hours*3600 + minutes*60 \<le> blocks*6 < days*86400 + hours*3600 + minutes*60 + 60\<close>:
  the floor decomposition of \<open>blocks*6\<close> seconds.
\<close>

theorem blocksToTime_decomposition:
  "0 \<le> blocks \<Longrightarrow> blocks * 6 \<le> 2 ^ 53 \<Longrightarrow>
   (\<exists>d h m.
      blocksToTime (num blocks) = \<lparr> days = num d, hours = num h, minutes = num m \<rparr>
      \<and> d = blocks * 6 div 86400
      \<and> h = blocks * 6 mod 86400 div 3600
      \<and> m = blocks * 6 mod 3600 div 60
      \<and> 0 \<le> h \<and> h < 24 \<and> 0 \<le> m \<and> m < 60
      \<and> d * 86400 + h * 3600 + m * 60 \<le> blocks * 6
      \<and> blocks * 6 < d * 86400 + h * 3600 + m * 60 + 60)"
proof -
  assume nn: "0 \<le> blocks" and bd: "blocks * 6 \<le> 2 ^ 53"
  define s where "s = blocks * 6"
  have s0: "0 \<le> s" using nn by (simp add: s_def)
  have s53: "s \<le> 2 ^ 53" using bd by (simp add: s_def)
  have "js_mul (num blocks) (num 6) = num (blocks * 6)"
    using nn bd by (intro js_mul_exact) simp
  then have sec: "js_mul (num blocks) (Fin 6) = num s" by (simp add: s_def num_def)
  define r where "r = s mod 86400"
  define q where "q = s mod 3600"
  define dd where "dd = s div 86400"
  define hh where "hh = r div 3600"
  define mm where "mm = q div 60"
  have r_bd: "0 \<le> r" "r < 86400" by (simp_all add: r_def)
  have q_bd: "0 \<le> q" "q < 3600" by (simp_all add: q_def)
  have c86400: "Fin 86400 = num 86400" and c3600: "Fin 3600 = num 3600"
    and c60: "Fin 60 = num 60" by (simp_all add: num_def)
  have d: "Math_floor (js_div (num s) (Fin 86400)) = num dd"
    unfolding c86400 dd_def using s0 s53 by (intro floor_div_exact) simp_all
  have rem1: "js_rem (num s) (Fin 86400) = num r"
    unfolding c86400 r_def using s0 by (intro js_rem_exact) simp_all
  have rem2: "js_rem (num s) (Fin 3600) = num q"
    unfolding c3600 q_def using s0 by (intro js_rem_exact) simp_all
  have h: "Math_floor (js_div (num r) (Fin 3600)) = num hh"
    unfolding c3600 hh_def using r_bd by (intro floor_div_exact) simp_all
  have m: "Math_floor (js_div (num q) (Fin 60)) = num mm"
    unfolding c60 mm_def using q_bd by (intro floor_div_exact) simp_all
  have val: "blocksToTime (num blocks) = \<lparr> days = num dd, hours = num hh, minutes = num mm \<rparr>"
    by (simp add: blocksToTime_def Let_def sec d rem1 rem2 h m)
  have e1: "s = dd * 86400 + r" by (simp add: dd_def r_def)
  have rq: "r mod 3600 = q" by (simp add: r_def q_def mod_mod_cancel)
  have "r = hh * 3600 + r mod 3600" by (simp add: hh_def)
  then have e2: "r = hh * 3600 + q" by (simp only: rq)
  have e3: "q = mm * 60 + q mod 60" by (simp add: mm_def)
  have l_bd: "0 \<le> q mod 60" "q mod 60 < 60" by simp_all
  have ineq: "0 \<le> hh \<and> hh < 24 \<and> 0 \<le> mm \<and> mm < 60
      \<and> dd * 86400 + hh * 3600 + mm * 60 \<le> s \<and> s < dd * 86400 + hh * 3600 + mm * 60 + 60"
    using e1 r_bd e2 q_bd e3 l_bd by linarith
  show ?thesis
    using val ineq unfolding dd_def hh_def mm_def r_def q_def s_def by blast
qed

theorem blocksToTime_decomposition_witness:
  "(0::int) \<le> 14411 \<and> (14411::int) * 6 \<le> 2 ^ 53
   \<and> blocksToTime (num 14411) = \<lparr> days = num 1, hours = num 0, minutes = num 1 \<rparr>
   \<and> (14411::int) * 6 div 86400 = 1
   \<and> (14411::int) * 6 mod 86400 div 3600 = 0
   \<and> (14411::int) * 6 mod 3600 div 60 = 1
   \<and> (1::int) * 86400 + 0 * 3600 + 1 * 60 \<le> 14411 * 6
   \<and> (14411::int) * 6 < 1 * 86400 + 0 * 3600 + 1 * 60 + 60"
  using blocksToTime_decomposition [of 14411] by simp

subsection \<open>Joining the pool\<close>

text \<open>
  Claim C8, as stated: for an identity that is already a pool member,
  \<open>joinValidatorPool\<close> fails before any call to the chain and emits no join intent.
  The code has no such check. In the example snapshot \<open>alice\<close> is a member, and joining
  again still hands the extrinsic to \<open>signAndSend\<close>; the promise then follows the
  chain's events (resolved when the in-block event carries no dispatch error, pending
  while there is no in-block event).
\<close>

theorem joinValidatorPool_member_counterexample:
  "isInPool example_api ''alice''
   \<and> joinValidatorPool example_api ''alice'' StakeValidator
        [\<lparr> isInBlock = True, dispatchError = None \<rparr>]
       = ([SignAndSend ''alice'' (JoinValidatorPool StakeValidator)], Resolved)
   \<and> joinValidatorPool example_api ''alice'' StakeValidator []
       = ([SignAndSend ''alice'' (JoinValidatorPool StakeValidator)], Pending)"
  by (simp add: isInPool_def poolMembers_def example_api_def joinValidatorPool_def)

text \<open>
  Claim C8, amended: \<open>joinValidatorPool\<close> makes no local membership check. For every
  identity, member or not, it submits exactly one \<open>joinValidatorPool\<close> extrinsic through
  \<open>signAndSend\<close>. The promise is pending exactly while no in-block event has arrived;
  the first in-block event settles it: rejected with the dispatch error the chain
  reported in that event, resolved when the event carries none. So it is rejected only
  with a dispatch error of the chain, never locally.
\<close>

theorem joinValidatorPool_always_submits:
  "fst (joinValidatorPool a signerAddress c events)
     = [SignAndSend signerAddress (JoinValidatorPool c)]
   \<and> snd (joinValidatorPool a signerAddress c []) = Pending
   \<and> (snd (joinValidatorPool a signerAddress c events) = Pending
        \<longleftrightarrow> (\<forall>e \<in> set events. \<not> isInBlock e))
   \<and> (find isInBlock events = Some ev \<longrightarrow>
        snd (joinValidatorPool a signerAddress c events)
          = (case dispatchError ev of Some err' \<Rightarrow> Rejected err' | None \<Rightarrow> Resolved))
   \<and> (snd (joinValidatorPool a signerAddress c events) = Resolved
        \<longleftrightarrow> (\<exists>e. find isInBlock events = Some e \<and> dispatchError e = None))
   \<and> (snd (joinValidatorPool a signerAddress c events) = Rejected err \<longrightarrow>
        (\<exists>e \<in> set events. isInBlock e \<and> dispatchError e = Some err))"
proof -
  have first: "settle evs =
      (case find isInBlock evs of
         None \<Rightarrow> Pending
       | Some e \<Rightarrow> (case dispatchError e of Some err' \<Rightarrow> Rejected err' | None \<Rightarrow> Resolved))"
    for evs
    by (induction evs) simp_all
  have pend: "settle evs = Pending \<longleftrightarrow> (\<forall>e \<in> set evs. \<not> isInBlock e)" for evs
    by (induction evs) (auto split: option.splits)
  have res: "settle evs = Resolved
      \<longleftrightarrow> (\<exists>e. find isInBlock evs = Some e \<and> dispatchError e = None)" for evs
    by (induction evs) (auto split: option.splits)
  have rej: "settle evs = Rejected err \<Longrightarrow>
      \<exists>e \<in> set evs. isInBlock e \<and> dispatchError e = Some err" for evs
    by (induction evs) (auto split: if_splits option.splits)
  have sn: "snd (joinValidatorPool a signerAddress c evs) = settle evs" for evs
    by (simp add: joinValidatorPool_def)
  have c1: "fst (joinValidatorPool a signerAddress c events)
     = [SignAndSend signerAddress (JoinValidatorPool c)]"
    by (simp add: joinValidatorPool_def)
  have c4: "find isInBlock events = Some ev \<longrightarrow>
        snd (joinValidatorPool a signerAddress c events)
          = (case dispatchError ev of Some err' \<Rightarrow> Rejected err' | None \<Rightarrow> Resolved)"
    by (simp add: sn first)
  show ?thesis
    using c1 c4 pend [of events] res [of events] rej [of events]
    unfolding sn by simp
qed

theorem joinValidatorPool_always_submits_witness:
  "isInPool example_api ''alice''
   \<and> fst (joinValidatorPool example_api ''alice'' StakeValidator
        [\<lparr> isInBlock = False, dispatchError = None \<rparr>,
         \<lparr> isInBlock = True, dispatchError = Some ''AlreadyInPool'' \<rparr>])
       = [SignAndSend ''alice'' (JoinValidatorPool StakeValidator)]
   \<and> find isInBlock [\<lparr> isInBlock = False, dispatchError = None \<rparr>,
         \<lparr> isInBlock = True, dispatchError = Some ''AlreadyInPool'' \<rparr>]
       = Some \<lparr> isInBlock = True, dispatchError = Some ''AlreadyInPool'' \<rparr>
   \<and> snd (joinValidatorPool example_api ''alice'' StakeValidator
        [\<lparr> isInBlock = False, dispatchError = None \<rparr>,
         \<lparr> isInBlock = True, dispatchError = Some ''AlreadyInPool'' \<rparr>])
       = Rejected ''AlreadyInPool''
   \<and> (\<exists>e \<in> set [\<lparr> isInBlock = False, dispatchError = None \<rparr>,
                 \<lparr> isInBlock = True, dispatchError = Some ''AlreadyInPool'' \<rparr>].
        isInBlock e \<and> dispatchError e = Some ''AlreadyInPool'')"
proof -
  have m: "isInPool example_api ''alice''"
    by (simp add: isInPool_def poolMembers_def example_api_def)
  have f: "find isInBlock [\<lparr> isInBlock = False, dispatchError = None \<rparr>,
         \<lparr> isInBlock = True, dispatchError = Some ''AlreadyInPool'' \<rparr>]
       = Some \<lparr> isInBlock = True, dispatchError = Some ''AlreadyInPool'' \<rparr>"
    by simp
  from m f joinValidatorPool_always_submits [of example_api "''alice''" StakeValidator
      "[\<lparr> isInBlock = False, dispatchError = None \<rparr>,
        \<lparr> isInBlock = True, dispatchError = Some ''AlreadyInPool'' \<rparr>]"
      "\<lparr> isInBlock = True, dispatchError = Some ''AlreadyInPool'' \<rparr>" "''AlreadyInPool''"]
  show ?thesis by simp
qed

end
